theory Spec2Isabelle
  imports Complex_Main
begin

section \<open>The error model (src/unnamed/part_000)\<close>

text \<open>
  Values of Go's \<^verbatim>\<open>interface{}\<close> that the client only carries (the entries of
  \<^verbatim>\<open>Details\<close>, \<^verbatim>\<open>Params\<close> and \<^verbatim>\<open>Data\<close>) are kept opaque.
\<close>

typedecl any

text \<open>
  \<^verbatim>\<open>type APIError struct\<close>. A \<^verbatim>\<open>nil\<close> map is \<open>None\<close>. Go's \<^verbatim>\<open>int\<close> is
  modelled by \<open>int\<close>: the status code is only compared and printed, never computed with.
\<close>

record APIError =
  Code :: string
  Message :: string
  StatusCode :: int
  ErrorMsg :: string
  Details :: "(string \<rightharpoonup> any) option"

text \<open>
  A non-nil value of Go's \<^verbatim>\<open>error\<close> interface, by dynamic type:
  \<^item> \<open>APIErr e\<close>: a (non-nil) \<^verbatim>\<open>*APIError\<close> pointing to \<open>e\<close>;
  \<^item> \<open>ErrorString s\<close>: the result of \<^verbatim>\<open>fmt.Errorf\<close> without \<^verbatim>\<open>%w\<close>;
  \<^item> \<open>FmtWrapError msg err\<close>: the \<^verbatim>\<open>*fmt.wrapError\<close> that \<^verbatim>\<open>fmt.Errorf\<close> builds for a
    format with \<^verbatim>\<open>%w\<close>: its text and the wrapped error;
  \<^item> \<open>LibError s\<close>: an error of the standard library (encoding/json, io, net/url,
    net/http), of which only the text is known.
  The nil interface is \<open>None\<close> of \<open>error option\<close>. A nil \<^verbatim>\<open>*APIError\<close> stored in an
  interface is not represented.
\<close>

datatype error =
    APIErr APIError
  | ErrorString string
  | FmtWrapError string error
  | LibError string

text \<open>The verb \<^verbatim>\<open>%d\<close> of \<^verbatim>\<open>fmt.Sprintf\<close> on an \<^verbatim>\<open>int\<close>: decimal, with a minus sign.\<close>

fun nat_digits :: "nat \<Rightarrow> string" where
  "nat_digits n =
     (if n < 10 then [''0123456789'' ! n]
      else nat_digits (n div 10) @ [''0123456789'' ! (n mod 10)])"

declare nat_digits.simps [simp del]

definition Sprintf_d :: "int \<Rightarrow> string" where
  "Sprintf_d i = (if i < 0 then CHR ''-'' # nat_digits (nat (- i)) else nat_digits (nat i))"

text \<open>\<^verbatim>\<open>func (e *APIError) Error() string\<close>\<close>

definition APIError_Error :: "APIError \<Rightarrow> string" where
  "APIError_Error e =
     (if Message e \<noteq> '''' then Message e
      else if ErrorMsg e \<noteq> '''' then ErrorMsg e
      else if Code e \<noteq> '''' then
        ''API error ['' @ Code e @ '']: status '' @ Sprintf_d (StatusCode e)
      else ''API error: status '' @ Sprintf_d (StatusCode e))"

text \<open>The method \<^verbatim>\<open>Error()\<close> of the \<^verbatim>\<open>error\<close> interface, by dynamic type.\<close>

fun Error :: "error \<Rightarrow> string" where
  "Error (APIErr e) = APIError_Error e"
| "Error (ErrorString s) = s"
| "Error (FmtWrapError msg err) = msg"
| "Error (LibError s) = s"

text \<open>
  \<^verbatim>\<open>fmt.Errorf(prefix + "%w", err)\<close>: the text is the prefix followed by the text of
  \<open>err\<close>, and \<open>err\<close> is kept as the wrapped error. \<^verbatim>\<open>errors.Unwrap\<close> returns it.
\<close>

definition Errorf_w :: "string \<Rightarrow> error \<Rightarrow> error" where
  "Errorf_w prefix err = FmtWrapError (prefix @ Error err) err"

fun Unwrap :: "error \<Rightarrow> error option" where
  "Unwrap (FmtWrapError msg err) = Some err"
| "Unwrap _ = None"

text \<open>The error-code constants, and the status constants of net/http they are used with.\<close>

definition ErrCodeInvalidCredentials :: string where "ErrCodeInvalidCredentials = ''INVALID_CREDENTIALS''"
definition ErrCodeInvalidPhoneNumber :: string where "ErrCodeInvalidPhoneNumber = ''INVALID_PHONE_NUMBER''"
definition ErrCodeInsufficientBalance :: string where "ErrCodeInsufficientBalance = ''INSUFFICIENT_BALANCE''"
definition ErrCodeRateLimitExceeded :: string where "ErrCodeRateLimitExceeded = ''RATE_LIMIT_EXCEEDED''"
definition ErrCodeNotFound :: string where "ErrCodeNotFound = ''NOT_FOUND''"
definition ErrCodeForbidden :: string where "ErrCodeForbidden = ''FORBIDDEN''"
definition ErrCodeBadRequest :: string where "ErrCodeBadRequest = ''BAD_REQUEST''"
definition ErrCodeInternalServerError :: string where "ErrCodeInternalServerError = ''INTERNAL_SERVER_ERROR''"
definition ErrCodeServiceUnavailable :: string where "ErrCodeServiceUnavailable = ''SERVICE_UNAVAILABLE''"

definition StatusBadRequest :: int where "StatusBadRequest = 400"
definition StatusUnauthorized :: int where "StatusUnauthorized = 401"
definition StatusPaymentRequired :: int where "StatusPaymentRequired = 402"
definition StatusForbidden :: int where "StatusForbidden = 403"
definition StatusNotFound :: int where "StatusNotFound = 404"
definition StatusTooManyRequests :: int where "StatusTooManyRequests = 429"
definition StatusInternalServerError :: int where "StatusInternalServerError = 500"
definition StatusServiceUnavailable :: int where "StatusServiceUnavailable = 503"

text \<open>
  The helpers. Each starts with the type assertion \<^verbatim>\<open>err.(*APIError)\<close>, which fails on
  the nil interface and on every other dynamic type.
\<close>

definition IsAPIError :: "error option \<Rightarrow> bool" where
  "IsAPIError err = (case err of Some (APIErr apiErr) \<Rightarrow> True | _ \<Rightarrow> False)"

definition GetStatusCode :: "error option \<Rightarrow> int" where
  "GetStatusCode err = (case err of Some (APIErr apiErr) \<Rightarrow> StatusCode apiErr | _ \<Rightarrow> 0)"

definition GetErrorCode :: "error option \<Rightarrow> string" where
  "GetErrorCode err = (case err of Some (APIErr apiErr) \<Rightarrow> Code apiErr | _ \<Rightarrow> '''')"

definition IsErrorCode :: "error option \<Rightarrow> string \<Rightarrow> bool" where
  "IsErrorCode err code = (case err of Some (APIErr apiErr) \<Rightarrow> Code apiErr = code | _ \<Rightarrow> False)"

definition NewAPIError :: "string \<Rightarrow> string \<Rightarrow> int \<Rightarrow> APIError" where
  "NewAPIError code message statusCode =
     \<lparr>Code = code, Message = message, StatusCode = statusCode, ErrorMsg = '''', Details = None\<rparr>"

text \<open>\<^verbatim>\<open>WrapError\<close> returns a \<^verbatim>\<open>*APIError\<close>: \<open>None\<close> is the nil pointer.\<close>

definition WrapError :: "error option \<Rightarrow> int \<Rightarrow> APIError option" where
  "WrapError err statusCode =
     (case err of
        None \<Rightarrow> None
      | Some (APIErr apiErr) \<Rightarrow> Some apiErr
      | Some e \<Rightarrow> Some \<lparr>Code = '''', Message = Error e, StatusCode = statusCode,
                         ErrorMsg = '''', Details = None\<rparr>)"

definition IsNotFound :: "error option \<Rightarrow> bool" where
  "IsNotFound err =
     (case err of
        Some (APIErr apiErr) \<Rightarrow> StatusCode apiErr = StatusNotFound \<or> Code apiErr = ErrCodeNotFound
      | _ \<Rightarrow> False)"

definition IsUnauthorized :: "error option \<Rightarrow> bool" where
  "IsUnauthorized err =
     (case err of
        Some (APIErr apiErr) \<Rightarrow>
          StatusCode apiErr = StatusUnauthorized \<or> Code apiErr = ErrCodeInvalidCredentials
      | _ \<Rightarrow> False)"

definition IsRateLimited :: "error option \<Rightarrow> bool" where
  "IsRateLimited err =
     (case err of
        Some (APIErr apiErr) \<Rightarrow>
          StatusCode apiErr = StatusTooManyRequests \<or> Code apiErr = ErrCodeRateLimitExceeded
      | _ \<Rightarrow> False)"

definition IsInsufficientBalance :: "error option \<Rightarrow> bool" where
  "IsInsufficientBalance err =
     (case err of
        Some (APIErr apiErr) \<Rightarrow>
          Code apiErr = ErrCodeInsufficientBalance \<or> StatusCode apiErr = StatusPaymentRequired
      | _ \<Rightarrow> False)"

definition IsBadRequest :: "error option \<Rightarrow> bool" where
  "IsBadRequest err =
     (case err of
        Some (APIErr apiErr) \<Rightarrow> StatusCode apiErr = StatusBadRequest \<or> Code apiErr = ErrCodeBadRequest
      | _ \<Rightarrow> False)"

section \<open>The transport pipeline (src/unnamed/part_001)\<close>

text \<open>
  The standard library is outside the repository. Its functions are parameters of the
  model, so every theorem below holds for any behaviour of them. The types of net/http
  stay abstract: \<open>'rq\<close> is \<^verbatim>\<open>*http.Request\<close>, \<open>'b\<close> the type of a request payload and
  \<open>'v\<close> the type of a result container.
\<close>

text \<open>
  \<^verbatim>\<open>context.Context\<close>: \<^verbatim>\<open>context.Background()\<close>, or any other context, told apart by a
  number. What a context does to a request is part of the library's behaviour.
\<close>

datatype Context = Background | OtherContext nat

text \<open>
  \<^verbatim>\<open>*http.Response\<close>, as far as \<^verbatim>\<open>parseResponse\<close> reads it: the status code and what
  \<^verbatim>\<open>io.ReadAll(resp.Body)\<close> returns, the bytes of the body or an error.
\<close>

record Response =
  resp_StatusCode :: int
  resp_Body :: "error + string"

text \<open>
  \<^item> \<open>url_Parse\<close>: the error of \<^verbatim>\<open>url.Parse\<close>, if any; \<open>url_WithQuery\<close>: the URL
    re-serialised after \<^verbatim>\<open>q.Set(k, v)\<close> for every query parameter;
  \<^item> \<open>json_Marshal\<close>: \<^verbatim>\<open>json.Marshal\<close>;
  \<^item> \<open>http_NewRequestWithContext\<close>, \<open>Header_Set\<close>: request construction;
  \<^item> \<open>json_Unmarshal_APIError\<close>, \<open>json_Unmarshal\<close>: \<^verbatim>\<open>json.Unmarshal(data, dst)\<close> on a
    \<^verbatim>\<open>*APIError\<close> and on a result container: the error, if any, and the contents of the
    destination afterwards (a failed decode may have written part of it).
\<close>

record ('rq, 'b, 'v) stdlib =
  url_Parse :: "string \<Rightarrow> error option"
  url_WithQuery :: "string \<Rightarrow> (string \<times> string) list \<Rightarrow> string"
  json_Marshal :: "'b \<Rightarrow> error + string"
  http_NewRequestWithContext :: "Context \<Rightarrow> string \<Rightarrow> string \<Rightarrow> string option \<Rightarrow> error + 'rq"
  Header_Set :: "string \<Rightarrow> string \<Rightarrow> 'rq \<Rightarrow> 'rq"
  json_Unmarshal_APIError :: "string \<Rightarrow> APIError \<Rightarrow> error option \<times> APIError"
  json_Unmarshal :: "string \<Rightarrow> 'v \<Rightarrow> error option \<times> 'v"

text \<open>
  \<^verbatim>\<open>type Client struct\<close>. The \<^verbatim>\<open>*http.Client\<close> is its method \<^verbatim>\<open>Do\<close>: the network and
  the server, which answer a request with a response or a transport error. The field
  \<^verbatim>\<open>Messages\<close>, the service that points back to the client, is left out: the methods of
  the service take the client instead.
\<close>

record 'rq Client =
  baseURL :: string
  httpClient_Do :: "'rq \<Rightarrow> error + Response"
  apiKey :: string
  apiSecret :: string

text \<open>
  The effect of the pipeline on the outside world is the sequence of calls into net/http
  that build and send requests. It is threaded through every operation.
\<close>

datatype 'rq http_event = Built 'rq | Sent 'rq

text \<open>The zero value of \<^verbatim>\<open>APIError\<close> (\<^verbatim>\<open>var apiErr APIError\<close>).\<close>

definition zero_APIError :: APIError where
  "zero_APIError = \<lparr>Code = '''', Message = '''', StatusCode = 0, ErrorMsg = '''', Details = None\<rparr>"

text \<open>\<^verbatim>\<open>func getErrorCodeFromStatusCode(statusCode int) string\<close>\<close>

definition getErrorCodeFromStatusCode :: "int \<Rightarrow> string" where
  "getErrorCodeFromStatusCode statusCode =
     (if statusCode = StatusBadRequest then ErrCodeBadRequest
      else if statusCode = StatusUnauthorized then ErrCodeInvalidCredentials
      else if statusCode = StatusForbidden then ErrCodeForbidden
      else if statusCode = StatusNotFound then ErrCodeNotFound
      else if statusCode = StatusPaymentRequired then ErrCodeInsufficientBalance
      else if statusCode = StatusTooManyRequests then ErrCodeRateLimitExceeded
      else if statusCode = StatusInternalServerError then ErrCodeInternalServerError
      else if statusCode = StatusServiceUnavailable then ErrCodeServiceUnavailable
      else '''')"

text \<open>
  \<^verbatim>\<open>func (c *Client) doRequest\<close>. The query parameters are the entries of the Go map (an
  empty list for a nil or empty map).
\<close>

definition doRequest ::
  "('rq, 'b, 'v) stdlib \<Rightarrow> 'rq Client \<Rightarrow> Context \<Rightarrow> string \<Rightarrow> string \<Rightarrow> 'b option \<Rightarrow>
   (string \<times> string) list \<Rightarrow> 'rq http_event list \<Rightarrow> (error + Response) \<times> 'rq http_event list" where
  "doRequest L c ctx method endpoint body queryParams tr =
     (case (if length queryParams > 0 then
              (case url_Parse L (baseURL c @ endpoint) of
                 Some err \<Rightarrow> Inl (Errorf_w ''invalid URL: '' err)
               | None \<Rightarrow> Inr (url_WithQuery L (baseURL c @ endpoint) queryParams))
            else Inr (baseURL c @ endpoint)) of
        Inl e \<Rightarrow> (Inl e, tr)
      | Inr reqURL \<Rightarrow>
          (case (case body of
                   None \<Rightarrow> Inr None
                 | Some b \<Rightarrow>
                     (case json_Marshal L b of
                        Inl err \<Rightarrow> Inl (Errorf_w ''failed to marshal request body: '' err)
                      | Inr jsonData \<Rightarrow> Inr (Some jsonData))) of
             Inl e \<Rightarrow> (Inl e, tr)
           | Inr reqBody \<Rightarrow>
               (case http_NewRequestWithContext L ctx method reqURL reqBody of
                  Inl err \<Rightarrow> (Inl (Errorf_w ''failed to create request: '' err), tr)
                | Inr req0 \<Rightarrow>
                    (let req = Header_Set L ''X-API-Secret'' (apiSecret c)
                                (Header_Set L ''X-API-Key'' (apiKey c)
                                  (Header_Set L ''Accept'' ''application/json''
                                    (Header_Set L ''Content-Type'' ''application/json'' req0)))
                     in (case httpClient_Do c req of
                           Inl err \<Rightarrow>
                             (Inl (Errorf_w ''request failed: '' err), tr @ [Built req0, Sent req])
                         | Inr resp \<Rightarrow> (Inr resp, tr @ [Built req0, Sent req]))))))"

text \<open>
  \<^verbatim>\<open>func (c *Client) parseResponse(resp *http.Response, v interface{}) error\<close>. The
  container \<open>v\<close> is \<open>None\<close> for a nil interface and \<open>Some dst\<close> for a pointer to a
  container holding \<open>dst\<close>; the function returns the error and the container afterwards.
\<close>

definition parseResponse ::
  "('rq, 'b, 'v) stdlib \<Rightarrow> 'rq Client \<Rightarrow> Response \<Rightarrow> 'v option \<Rightarrow> error option \<times> 'v option" where
  "parseResponse L c resp v =
     (case resp_Body resp of
        Inl err \<Rightarrow> (Some (Errorf_w ''failed to read response body: '' err), v)
      | Inr body \<Rightarrow>
          if resp_StatusCode resp < 200 \<or> resp_StatusCode resp \<ge> 300 then
            (case (case json_Unmarshal_APIError L body zero_APIError of
                     (None, apiErr0) \<Rightarrow>
                       (let apiErr = (if StatusCode apiErr0 = 0
                                      then apiErr0\<lparr>StatusCode := resp_StatusCode resp\<rparr>
                                      else apiErr0)
                        in if Message apiErr \<noteq> '''' \<or> Code apiErr \<noteq> '''' \<or> ErrorMsg apiErr \<noteq> ''''
                           then Some apiErr else None)
                   | (Some err, apiErr0) \<Rightarrow> None) of
               Some apiErr \<Rightarrow> (Some (APIErr apiErr), v)
             | None \<Rightarrow>
                 (Some (APIErr (NewAPIError
                    (getErrorCodeFromStatusCode (resp_StatusCode resp))
                    (''API error: status '' @ Sprintf_d (resp_StatusCode resp) @ '', body: '' @ body)
                    (resp_StatusCode resp))), v))
          else
            (case v of
               None \<Rightarrow> (None, None)
             | Some dst \<Rightarrow>
                 (case json_Unmarshal L body dst of
                    (Some err, dst') \<Rightarrow>
                      (Some (Errorf_w ''failed to unmarshal response: '' err), Some dst')
                  | (None, dst') \<Rightarrow> (None, Some dst'))))"

text \<open>The four verbs.\<close>

definition Get ::
  "('rq, 'b, 'v) stdlib \<Rightarrow> 'rq Client \<Rightarrow> Context \<Rightarrow> string \<Rightarrow> 'v option \<Rightarrow>
   (string \<times> string) list \<Rightarrow> 'rq http_event list \<Rightarrow>
   (error option \<times> 'v option) \<times> 'rq http_event list" where
  "Get L c ctx endpoint result queryParams tr =
     (case doRequest L c ctx ''GET'' endpoint None queryParams tr of
        (Inl err, tr') \<Rightarrow> ((Some err, result), tr')
      | (Inr resp, tr') \<Rightarrow> (parseResponse L c resp result, tr'))"

definition Post ::
  "('rq, 'b, 'v) stdlib \<Rightarrow> 'rq Client \<Rightarrow> Context \<Rightarrow> string \<Rightarrow> 'b option \<Rightarrow> 'v option \<Rightarrow>
   'rq http_event list \<Rightarrow> (error option \<times> 'v option) \<times> 'rq http_event list" where
  "Post L c ctx endpoint body result tr =
     (case doRequest L c ctx ''POST'' endpoint body [] tr of
        (Inl err, tr') \<Rightarrow> ((Some err, result), tr')
      | (Inr resp, tr') \<Rightarrow> (parseResponse L c resp result, tr'))"

definition Put ::
  "('rq, 'b, 'v) stdlib \<Rightarrow> 'rq Client \<Rightarrow> Context \<Rightarrow> string \<Rightarrow> 'b option \<Rightarrow> 'v option \<Rightarrow>
   'rq http_event list \<Rightarrow> (error option \<times> 'v option) \<times> 'rq http_event list" where
  "Put L c ctx endpoint body result tr =
     (case doRequest L c ctx ''PUT'' endpoint body [] tr of
        (Inl err, tr') \<Rightarrow> ((Some err, result), tr')
      | (Inr resp, tr') \<Rightarrow> (parseResponse L c resp result, tr'))"

definition Delete ::
  "('rq, 'b, 'v) stdlib \<Rightarrow> 'rq Client \<Rightarrow> Context \<Rightarrow> string \<Rightarrow> 'v option \<Rightarrow>
   'rq http_event list \<Rightarrow> (error option \<times> 'v option) \<times> 'rq http_event list" where
  "Delete L c ctx endpoint result tr =
     (case doRequest L c ctx ''DELETE'' endpoint None [] tr of
        (Inl err, tr') \<Rightarrow> ((Some err, result), tr')
      | (Inr resp, tr') \<Rightarrow> (parseResponse L c resp result, tr'))"

section \<open>The message service (src/types.go, src/signalads.go)\<close>

text \<open>
  The payload records. Field names carry a prefix, since several structs share the names
  \<^verbatim>\<open>To\<close>, \<^verbatim>\<open>Message\<close> and \<^verbatim>\<open>Status\<close>. A \<^verbatim>\<open>float64\<close> is only carried, as a \<open>real\<close>.
\<close>

record SendMessageRequest =
  smq_To :: string
  smq_Message :: string
  smq_DocumentLink :: string
  smq_DocumentCaption :: string
  smq_From :: string
  smq_Params :: "(string \<rightharpoonup> any) option"

record SendMessageResponse =
  smr_ID :: string
  smr_Status :: string
  smr_Message :: string
  smr_To :: string
  smr_Cost :: real
  smr_SentAt :: string
  smr_Data :: "(string \<rightharpoonup> any) option"

record BulkMessageItem =
  bmi_To :: string
  bmi_Message :: string
  bmi_Params :: "(string \<rightharpoonup> string) option"

record SendBulkMessageRequest =
  sbq_Messages :: "BulkMessageItem list"
  sbq_From :: string
  sbq_Params :: "(string \<rightharpoonup> any) option"

record SendBulkMessageResponse =
  sbr_Total :: int
  sbr_Success :: int
  sbr_Failed :: int
  sbr_MessageIDs :: "string list"
  sbr_Results :: "SendMessageResponse list"
  sbr_Status :: string
  sbr_Data :: "(string \<rightharpoonup> any) option"

text \<open>The zero values of the two result structs (\<^verbatim>\<open>var response ...\<close>).\<close>

definition zero_SendMessageResponse :: SendMessageResponse where
  "zero_SendMessageResponse =
     \<lparr>smr_ID = '''', smr_Status = '''', smr_Message = '''', smr_To = '''', smr_Cost = 0,
      smr_SentAt = '''', smr_Data = None\<rparr>"

definition zero_SendBulkMessageResponse :: SendBulkMessageResponse where
  "zero_SendBulkMessageResponse =
     \<lparr>sbr_Total = 0, sbr_Success = 0, sbr_Failed = 0, sbr_MessageIDs = [], sbr_Results = [],
      sbr_Status = '''', sbr_Data = None\<rparr>"

text \<open>
  \<^verbatim>\<open>func (s *MessagesService) SendSingleMessage\<close>, with \<^verbatim>\<open>s.client\<close> as \<open>c\<close>. The request
  pointer is \<open>None\<close> when nil. The result is the pair the Go function returns (response
  pointer, error) and the trace afterwards. On success the response is what the local
  variable \<^verbatim>\<open>response\<close> holds after \<^verbatim>\<open>Post\<close>.
\<close>

definition SendSingleMessage ::
  "('rq, SendMessageRequest, SendMessageResponse) stdlib \<Rightarrow> 'rq Client \<Rightarrow> Context \<Rightarrow>
   SendMessageRequest option \<Rightarrow> 'rq http_event list \<Rightarrow>
   (SendMessageResponse option \<times> error option) \<times> 'rq http_event list" where
  "SendSingleMessage L c ctx req tr =
     (case req of
        None \<Rightarrow> ((None, Some (ErrorString ''request cannot be nil'')), tr)
      | Some r \<Rightarrow>
          if smq_To r = '''' then
            ((None, Some (ErrorString ''recipient phone number is required'')), tr)
          else if smq_Message r = '''' then
            ((None, Some (ErrorString ''message text is required'')), tr)
          else
            (case Post L c ctx ''/send-message/single'' (Some r) (Some zero_SendMessageResponse) tr of
               ((Some err, v), tr') \<Rightarrow>
                 ((None, Some (Errorf_w ''failed to send message: '' err)), tr')
             | ((None, v), tr') \<Rightarrow>
                 ((Some (case v of Some response \<Rightarrow> response | None \<Rightarrow> zero_SendMessageResponse),
                   None), tr')))"

text \<open>\<^verbatim>\<open>func (s *MessagesService) SendMessage\<close>\<close>

definition SendMessage ::
  "('rq, SendMessageRequest, SendMessageResponse) stdlib \<Rightarrow> 'rq Client \<Rightarrow> Context \<Rightarrow>
   string \<Rightarrow> string \<Rightarrow> 'rq http_event list \<Rightarrow>
   (SendMessageResponse option \<times> error option) \<times> 'rq http_event list" where
  "SendMessage L c ctx to message tr =
     SendSingleMessage L c ctx
       (Some \<lparr>smq_To = to, smq_Message = message, smq_DocumentLink = '''',
              smq_DocumentCaption = '''', smq_From = '''', smq_Params = None\<rparr>) tr"

text \<open>\<^verbatim>\<open>func (s *MessagesService) SendBulkMessages\<close>\<close>

definition SendBulkMessages ::
  "('rq, SendBulkMessageRequest, SendBulkMessageResponse) stdlib \<Rightarrow> 'rq Client \<Rightarrow> Context \<Rightarrow>
   SendBulkMessageRequest option \<Rightarrow> 'rq http_event list \<Rightarrow>
   (SendBulkMessageResponse option \<times> error option) \<times> 'rq http_event list" where
  "SendBulkMessages L c ctx req tr =
     (case req of
        None \<Rightarrow> ((None, Some (ErrorString ''request cannot be nil'')), tr)
      | Some r \<Rightarrow>
          if length (sbq_Messages r) = 0 then
            ((None, Some (ErrorString ''at least one message is required'')), tr)
          else
            (case Post L c ctx ''/send-message/bulk'' (Some r) (Some zero_SendBulkMessageResponse) tr of
               ((Some err, v), tr') \<Rightarrow>
                 ((None, Some (Errorf_w ''failed to send bulk messages: '' err)), tr')
             | ((None, v), tr') \<Rightarrow>
                 ((Some (case v of Some response \<Rightarrow> response
                                 | None \<Rightarrow> zero_SendBulkMessageResponse),
                   None), tr')))"

text \<open>\<^verbatim>\<open>func (s *MessagesService) SendBulkMessage\<close>\<close>

definition SendBulkMessage ::
  "('rq, SendBulkMessageRequest, SendBulkMessageResponse) stdlib \<Rightarrow> 'rq Client \<Rightarrow> Context \<Rightarrow>
   BulkMessageItem list \<Rightarrow> string \<Rightarrow> 'rq http_event list \<Rightarrow>
   (SendBulkMessageResponse option \<times> error option) \<times> 'rq http_event list" where
  "SendBulkMessage L c ctx messages from tr =
     SendBulkMessages L c ctx
       (Some \<lparr>sbq_Messages = messages, sbq_From = from, sbq_Params = None\<rparr>) tr"

section \<open>A test double of the library and the server\<close>

text \<open>
  The repository's tests run the client against an \<^verbatim>\<open>httptest\<close> server whose handler
  writes a fixed status and body. The definitions below play that part for the concrete
  instances: a request is the record of what it was built from, the server answers every
  request alike, and the JSON functions are tables over the bodies that the tests and
  the specification use, with the results of \<^verbatim>\<open>encoding/json\<close> on them. They are used at
  these bodies only, and only in the concrete instances: every general theorem is about
  an arbitrary library and client.
\<close>

record test_Request =
  rq_Method :: string
  rq_URL :: string
  rq_Body :: "string option"
  rq_Header :: "(string \<times> string) list"

definition body_invalid_phone :: string where
  \<open>body_invalid_phone = ''{"message":"Invalid phone number","status_code":400}''\<close>

definition body_sent :: string where
  \<open>body_sent = ''{"id":"msg-123","status":"sent","to":"+1234567890"}''\<close>

definition body_too_many :: string where
  \<open>body_too_many = ''{"error":"Too many requests"}''\<close>

definition test_Unmarshal_APIError :: "string \<Rightarrow> APIError \<Rightarrow> error option \<times> APIError" where
  "test_Unmarshal_APIError data dst =
     (if data = body_invalid_phone then
        (None, dst\<lparr>Message := ''Invalid phone number'', StatusCode := 400\<rparr>)
      else if data = body_too_many then (None, dst\<lparr>ErrorMsg := ''Too many requests''\<rparr>)
      else if data = ''{}'' then (None, dst)
      else if data = '''' then (Some (LibError ''unexpected end of JSON input''), dst)
      else (Some (LibError ''invalid character looking for beginning of value''), dst))"

definition test_Unmarshal_SendMessageResponse ::
  "string \<Rightarrow> SendMessageResponse \<Rightarrow> error option \<times> SendMessageResponse" where
  "test_Unmarshal_SendMessageResponse data dst =
     (if data = body_sent then
        (None, dst\<lparr>smr_ID := ''msg-123'', smr_Status := ''sent'', smr_To := ''+1234567890''\<rparr>)
      else if data = ''{}'' then (None, dst)
      else if data = '''' then (Some (LibError ''unexpected end of JSON input''), dst)
      else (Some (LibError ''invalid character looking for beginning of value''), dst))"

definition test_Marshal_SendMessageRequest :: "SendMessageRequest \<Rightarrow> error + string" where
  \<open>test_Marshal_SendMessageRequest r =
     Inr (''{"to":"'' @ smq_To r @ ''","message":"'' @ smq_Message r @ ''"}'')\<close>

fun join :: "string \<Rightarrow> string list \<Rightarrow> string" where
  "join sep [] = ''''"
| "join sep [x] = x"
| "join sep (x # y # ys) = x @ sep @ join sep (y # ys)"

definition test_stdlib ::
  "('b \<Rightarrow> error + string) \<Rightarrow> (string \<Rightarrow> 'v \<Rightarrow> error option \<times> 'v) \<Rightarrow> (test_Request, 'b, 'v) stdlib" where
  "test_stdlib marshal unmarshal =
     \<lparr>url_Parse = (\<lambda>u. None),
      url_WithQuery = (\<lambda>u q. u @ ''?'' @ join ''&'' (map (\<lambda>(k, v). k @ ''='' @ v) q)),
      json_Marshal = marshal,
      http_NewRequestWithContext =
        (\<lambda>ctx m u b. Inr \<lparr>rq_Method = m, rq_URL = u, rq_Body = b, rq_Header = []\<rparr>),
      Header_Set = (\<lambda>k v r. r\<lparr>rq_Header := rq_Header r @ [(k, v)]\<rparr>),
      json_Unmarshal_APIError = test_Unmarshal_APIError,
      json_Unmarshal = unmarshal\<rparr>"

definition test_server :: "int \<Rightarrow> string \<Rightarrow> test_Request \<Rightarrow> error + Response" where
  "test_server status body rq = Inr \<lparr>resp_StatusCode = status, resp_Body = Inr body\<rparr>"

definition setupTestClient :: "(test_Request \<Rightarrow> error + Response) \<Rightarrow> test_Request Client" where
  "setupTestClient handler =
     \<lparr>baseURL = ''http://127.0.0.1'', httpClient_Do = handler,
      apiKey = ''test-api-key'', apiSecret = ''test-api-secret''\<rparr>"

text \<open>The same for the bulk endpoint.\<close>

definition body_bulk_ok :: string where
  \<open>body_bulk_ok = ''{"total":2,"success":2,"failed":0,"status":"success"}''\<close>

definition test_Marshal_SendBulkMessageRequest :: "SendBulkMessageRequest \<Rightarrow> error + string" where
  \<open>test_Marshal_SendBulkMessageRequest r =
     Inr (''{"messages":['' @
          join '','' (map (\<lambda>m. ''{"to":"'' @ bmi_To m @ ''","message":"'' @ bmi_Message m @ ''"}'')
                        (sbq_Messages r)) @ '']}'')\<close>

definition test_Unmarshal_SendBulkMessageResponse ::
  "string \<Rightarrow> SendBulkMessageResponse \<Rightarrow> error option \<times> SendBulkMessageResponse" where
  "test_Unmarshal_SendBulkMessageResponse data dst =
     (if data = body_bulk_ok then
        (None, dst\<lparr>sbr_Total := 2, sbr_Success := 2, sbr_Failed := 0, sbr_Status := ''success''\<rparr>)
      else if data = ''{}'' then (None, dst)
      else if data = '''' then (Some (LibError ''unexpected end of JSON input''), dst)
      else (Some (LibError ''invalid character looking for beginning of value''), dst))"

definition test_lib :: "(test_Request, SendMessageRequest, SendMessageResponse) stdlib" where
  "test_lib = test_stdlib test_Marshal_SendMessageRequest test_Unmarshal_SendMessageResponse"

definition test_lib_bulk ::
  "(test_Request, SendBulkMessageRequest, SendBulkMessageResponse) stdlib" where
  "test_lib_bulk =
     test_stdlib test_Marshal_SendBulkMessageRequest test_Unmarshal_SendBulkMessageResponse"

section \<open>Rendering and classification of errors\<close>

lemmas ErrCode_defs =
  ErrCodeInvalidCredentials_def ErrCodeInvalidPhoneNumber_def ErrCodeInsufficientBalance_def
  ErrCodeRateLimitExceeded_def ErrCodeNotFound_def ErrCodeForbidden_def ErrCodeBadRequest_def
  ErrCodeInternalServerError_def ErrCodeServiceUnavailable_def

lemmas Status_defs =
  StatusBadRequest_def StatusUnauthorized_def StatusPaymentRequired_def StatusForbidden_def
  StatusNotFound_def StatusTooManyRequests_def StatusInternalServerError_def
  StatusServiceUnavailable_def

lemmas Is_defs =
  IsNotFound_def IsUnauthorized_def IsRateLimited_def IsInsufficientBalance_def IsBadRequest_def

text \<open>
  \<open>nat_digits\<close> is the decimal numeral: it is not empty, and reading it back digit by
  digit gives the number.
\<close>

lemma nat_digits_not_Nil: "nat_digits n \<noteq> []"
  by (subst nat_digits.simps) simp

lemma digit_char_val:
  assumes "n < 10"
  shows "of_char (''0123456789'' ! n) = (48 + n :: nat)"
proof -
  from assms have "n \<in> {0, 1, 2, 3, 4, 5, 6, 7, 8, 9}"
    by auto
  then show ?thesis
    by auto
qed

lemma nat_digits_value:
  "foldl (\<lambda>a c. 10 * a + (of_char c - (48::nat))) 0 (nat_digits n) = n"
proof (induction n rule: nat_digits.induct)
  case (1 n)
  show ?case
  proof (cases "n < 10")
    case True
    then show ?thesis
      by (subst nat_digits.simps) (simp add: digit_char_val)
  next
    case False
    have m: "n mod 10 < 10"
      by simp
    from False 1
    have "foldl (\<lambda>a c. 10 * a + (of_char c - (48::nat))) 0 (nat_digits (n div 10)) = n div 10"
      by simp
    with False show ?thesis
      by (subst nat_digits.simps) (simp add: digit_char_val [OF m])
  qed
qed

lemma Sprintf_d_examples:
  "Sprintf_d 0 = ''0''" "Sprintf_d 400 = ''400''" "Sprintf_d 404 = ''404''"
  "Sprintf_d 500 = ''500''" "Sprintf_d 429 = ''429''" "Sprintf_d (- 7) = ''-7''"
  by (simp_all add: Sprintf_d_def nat_digits.simps)

text \<open>
  Claim C3. The rendering of an \<open>APIError\<close> takes exactly one of four branches, in this
  order of priority: the message if it is not empty; else the alternate error text if it is
  not empty; else \<^verbatim>\<open>API error [<code>]: status <status_code>\<close> if the code is not empty;
  else \<^verbatim>\<open>API error: status <status_code>\<close>. The conditions of the four branches exclude
  each other and cover every value. With code \<^verbatim>\<open>INVALID_PHONE\<close> and status 400 and no
  text the rendering is \<^verbatim>\<open>API error [INVALID_PHONE]: status 400\<close>; with status 404 alone
  it is \<^verbatim>\<open>API error: status 404\<close>.
\<close>

theorem APIError_Error_branches:
  "(Message e \<noteq> '''' \<longrightarrow> APIError_Error e = Message e) \<and>
   (Message e = '''' \<and> ErrorMsg e \<noteq> '''' \<longrightarrow> APIError_Error e = ErrorMsg e) \<and>
   (Message e = '''' \<and> ErrorMsg e = '''' \<and> Code e \<noteq> '''' \<longrightarrow>
      APIError_Error e = ''API error ['' @ Code e @ '']: status '' @ Sprintf_d (StatusCode e)) \<and>
   (Message e = '''' \<and> ErrorMsg e = '''' \<and> Code e = '''' \<longrightarrow>
      APIError_Error e = ''API error: status '' @ Sprintf_d (StatusCode e)) \<and>
   APIError_Error \<lparr>Code = ''INVALID_PHONE'', Message = '''', StatusCode = 400, ErrorMsg = '''',
                    Details = None\<rparr> = ''API error [INVALID_PHONE]: status 400'' \<and>
   APIError_Error \<lparr>Code = '''', Message = '''', StatusCode = 404, ErrorMsg = '''',
                    Details = None\<rparr> = ''API error: status 404''"
  by (simp add: APIError_Error_def Sprintf_d_examples)

text \<open>
  The four branches at the values of \<^verbatim>\<open>TestAPIError_Error\<close>, with the fields of lower
  priority filled in where the test leaves them empty.
\<close>

theorem APIError_Error_branches_witness:
  "APIError_Error \<lparr>Code = ''C'', Message = ''Test error'', StatusCode = 400, ErrorMsg = ''E'',
                    Details = None\<rparr> = ''Test error'' \<and>
   APIError_Error \<lparr>Code = ''C'', Message = '''', StatusCode = 500, ErrorMsg = ''Error occurred'',
                    Details = None\<rparr> = ''Error occurred'' \<and>
   APIError_Error \<lparr>Code = ''RATE'', Message = '''', StatusCode = - 7, ErrorMsg = '''',
                    Details = None\<rparr> = ''API error [RATE]: status -7'' \<and>
   APIError_Error \<lparr>Code = '''', Message = '''', StatusCode = 0, ErrorMsg = '''',
                    Details = None\<rparr> = ''API error: status 0''"
  using
    APIError_Error_branches [of "\<lparr>Code = ''C'', Message = ''Test error'', StatusCode = 400,
      ErrorMsg = ''E'', Details = None\<rparr>"]
    APIError_Error_branches [of "\<lparr>Code = ''C'', Message = '''', StatusCode = 500,
      ErrorMsg = ''Error occurred'', Details = None\<rparr>"]
    APIError_Error_branches [of "\<lparr>Code = ''RATE'', Message = '''', StatusCode = - 7,
      ErrorMsg = '''', Details = None\<rparr>"]
    APIError_Error_branches [of "\<lparr>Code = '''', Message = '''', StatusCode = 0,
      ErrorMsg = '''', Details = None\<rparr>"]
  by (simp add: Sprintf_d_examples)

text \<open>
  Claim C10. The rendering of an \<open>APIError\<close> is never the empty string, whatever its
  fields hold, the zero value included: the first two branches return a text that was
  tested to be non-empty, and the other two start with a fixed prefix.
\<close>

theorem APIError_Error_nonempty: "APIError_Error e \<noteq> ''''"
  by (simp add: APIError_Error_def)

text \<open>
  Claim C8. The lookup from status to error code maps 400 to \<^verbatim>\<open>BAD_REQUEST\<close>, 401 to
  \<^verbatim>\<open>INVALID_CREDENTIALS\<close>, 403 to \<^verbatim>\<open>FORBIDDEN\<close>, 404 to \<^verbatim>\<open>NOT_FOUND\<close>, 402 to
  \<^verbatim>\<open>INSUFFICIENT_BALANCE\<close>, 429 to \<^verbatim>\<open>RATE_LIMIT_EXCEEDED\<close>, 500 to
  \<^verbatim>\<open>INTERNAL_SERVER_ERROR\<close>, 503 to \<^verbatim>\<open>SERVICE_UNAVAILABLE\<close>, and every other integer to
  the empty string.
\<close>

theorem getErrorCodeFromStatusCode_table:
  "getErrorCodeFromStatusCode 400 = ''BAD_REQUEST'' \<and>
   getErrorCodeFromStatusCode 401 = ''INVALID_CREDENTIALS'' \<and>
   getErrorCodeFromStatusCode 403 = ''FORBIDDEN'' \<and>
   getErrorCodeFromStatusCode 404 = ''NOT_FOUND'' \<and>
   getErrorCodeFromStatusCode 402 = ''INSUFFICIENT_BALANCE'' \<and>
   getErrorCodeFromStatusCode 429 = ''RATE_LIMIT_EXCEEDED'' \<and>
   getErrorCodeFromStatusCode 500 = ''INTERNAL_SERVER_ERROR'' \<and>
   getErrorCodeFromStatusCode 503 = ''SERVICE_UNAVAILABLE'' \<and>
   (s \<notin> {400, 401, 403, 404, 402, 429, 500, 503} \<longrightarrow> getErrorCodeFromStatusCode s = '''')"
  by (simp add: getErrorCodeFromStatusCode_def Status_defs ErrCode_defs)

theorem getErrorCodeFromStatusCode_table_witness:
  "(418::int) \<notin> {400, 401, 403, 404, 402, 429, 500, 503} \<and>
   getErrorCodeFromStatusCode 418 = '''' \<and>
   (- 1::int) \<notin> {400, 401, 403, 404, 402, 429, 500, 503} \<and>
   getErrorCodeFromStatusCode (- 1) = ''''"
  using getErrorCodeFromStatusCode_table [of 418] getErrorCodeFromStatusCode_table [of "- 1"]
  by simp

text \<open>
  Claim C4. On a typed API error \<open>e\<close>, \<open>IsNotFound\<close>, \<open>IsUnauthorized\<close>,
  \<open>IsRateLimited\<close>, \<open>IsInsufficientBalance\<close> and \<open>IsBadRequest\<close> hold if and only if
  the status code of \<open>e\<close> is 404, 401, 429, 402, 400 respectively, or its code is
  \<^verbatim>\<open>NOT_FOUND\<close>, \<^verbatim>\<open>INVALID_CREDENTIALS\<close>, \<^verbatim>\<open>RATE_LIMIT_EXCEEDED\<close>,
  \<^verbatim>\<open>INSUFFICIENT_BALANCE\<close>, \<^verbatim>\<open>BAD_REQUEST\<close> respectively; either condition is enough.
  On every error value that is not a typed API error (the nil error included) all five
  are false.
\<close>

theorem category_predicates:
  "(IsNotFound (Some (APIErr e)) \<longleftrightarrow> StatusCode e = 404 \<or> Code e = ''NOT_FOUND'') \<and>
   (IsUnauthorized (Some (APIErr e)) \<longleftrightarrow>
      StatusCode e = 401 \<or> Code e = ''INVALID_CREDENTIALS'') \<and>
   (IsRateLimited (Some (APIErr e)) \<longleftrightarrow>
      StatusCode e = 429 \<or> Code e = ''RATE_LIMIT_EXCEEDED'') \<and>
   (IsInsufficientBalance (Some (APIErr e)) \<longleftrightarrow>
      StatusCode e = 402 \<or> Code e = ''INSUFFICIENT_BALANCE'') \<and>
   (IsBadRequest (Some (APIErr e)) \<longleftrightarrow> StatusCode e = 400 \<or> Code e = ''BAD_REQUEST'') \<and>
   (\<not> IsAPIError err \<longrightarrow>
      \<not> IsNotFound err \<and> \<not> IsUnauthorized err \<and> \<not> IsRateLimited err \<and>
      \<not> IsInsufficientBalance err \<and> \<not> IsBadRequest err)"
  by (auto simp: Is_defs IsAPIError_def Status_defs ErrCode_defs
           split: option.splits error.splits)

text \<open>
  A typed error with the code \<^verbatim>\<open>NOT_FOUND\<close> and status 0 is found by its code alone, and
  \<^verbatim>\<open>fmt.Errorf("test error")\<close> is not a typed API error and satisfies none of the five.
\<close>

theorem category_predicates_witness:
  "IsNotFound (Some (APIErr \<lparr>Code = ''NOT_FOUND'', Message = '''', StatusCode = 0,
     ErrorMsg = '''', Details = None\<rparr>)) \<and>
   \<not> IsBadRequest (Some (APIErr \<lparr>Code = ''NOT_FOUND'', Message = '''', StatusCode = 0,
     ErrorMsg = '''', Details = None\<rparr>)) \<and>
   \<not> IsAPIError (Some (ErrorString ''test error'')) \<and>
   \<not> IsNotFound (Some (ErrorString ''test error'')) \<and>
   \<not> IsUnauthorized (Some (ErrorString ''test error'')) \<and>
   \<not> IsRateLimited (Some (ErrorString ''test error'')) \<and>
   \<not> IsInsufficientBalance (Some (ErrorString ''test error'')) \<and>
   \<not> IsBadRequest (Some (ErrorString ''test error''))"
proof -
  have h: "\<not> IsAPIError (Some (ErrorString ''test error''))"
    by (simp add: IsAPIError_def)
  show ?thesis
    using h category_predicates [of "\<lparr>Code = ''NOT_FOUND'', Message = '''', StatusCode = 0,
      ErrorMsg = '''', Details = None\<rparr>" "Some (ErrorString ''test error'')"]
    by simp
qed

text \<open>
  Claim C7. \<open>WrapError\<close> of the nil error is nil for every status code; \<open>WrapError\<close>
  of a typed API error is that error, unchanged; and \<open>WrapError\<close> of any other non-nil
  error is a new typed API error whose message is the text of the error and whose status
  code is the fallback status code (its other fields are empty).
\<close>

theorem WrapError_cases:
  "WrapError None s = None \<and>
   WrapError (Some (APIErr e)) s = Some e \<and>
   (\<not> IsAPIError (Some err) \<longrightarrow>
      WrapError (Some err) s =
        Some \<lparr>Code = '''', Message = Error err, StatusCode = s, ErrorMsg = '''',
              Details = None\<rparr>)"
  by (cases err) (simp_all add: WrapError_def IsAPIError_def)

theorem WrapError_cases_witness:
  "\<not> IsAPIError (Some (ErrorString ''test error'')) \<and>
   WrapError (Some (ErrorString ''test error'')) 500 =
     Some \<lparr>Code = '''', Message = ''test error'', StatusCode = 500, ErrorMsg = '''',
           Details = None\<rparr>"
proof -
  have h: "\<not> IsAPIError (Some (ErrorString ''test error''))"
    by (simp add: IsAPIError_def)
  show ?thesis
    using h WrapError_cases [where s = 500 and err = "ErrorString ''test error''"]
    by simp
qed

section \<open>The transport pipeline\<close>

text \<open>
  A verb whose request came back with a response returns what \<open>parseResponse\<close> makes of
  that response, and the trace of \<open>doRequest\<close>.
\<close>

lemma Get_response:
  "doRequest L c ctx ''GET'' endpoint None queryParams tr = (Inr resp, tr') \<Longrightarrow>
   Get L c ctx endpoint v queryParams tr = (parseResponse L c resp v, tr')"
  by (simp add: Get_def)

lemma Post_response:
  "doRequest L c ctx ''POST'' endpoint b [] tr = (Inr resp, tr') \<Longrightarrow>
   Post L c ctx endpoint b v tr = (parseResponse L c resp v, tr')"
  by (simp add: Post_def)

lemma Put_response:
  "doRequest L c ctx ''PUT'' endpoint b [] tr = (Inr resp, tr') \<Longrightarrow>
   Put L c ctx endpoint b v tr = (parseResponse L c resp v, tr')"
  by (simp add: Put_def)

lemma Delete_response:
  "doRequest L c ctx ''DELETE'' endpoint None [] tr = (Inr resp, tr') \<Longrightarrow>
   Delete L c ctx endpoint v tr = (parseResponse L c resp v, tr')"
  by (simp add: Delete_def)

lemma parseResponse_non_2xx:
  assumes "resp_StatusCode resp < 200 \<or> 300 \<le> resp_StatusCode resp"
    and "resp_Body resp = Inr body"
  shows "IsAPIError (fst (parseResponse L c resp v))" and "snd (parseResponse L c resp v) = v"
  using assms
  by (auto simp: parseResponse_def Let_def IsAPIError_def split: prod.splits option.splits)

lemma parseResponse_2xx_nil:
  assumes "200 \<le> resp_StatusCode resp" and "resp_StatusCode resp < 300"
    and "resp_Body resp = Inr body"
  shows "parseResponse L c resp None = (None, None)"
  using assms by (simp add: parseResponse_def)

text \<open>The test double, evaluated.\<close>

lemma test_stdlib_sel:
  "json_Unmarshal_APIError (test_stdlib m u) = test_Unmarshal_APIError"
  "json_Unmarshal (test_stdlib m u) = u"
  "json_Marshal (test_stdlib m u) = m"
  by (simp_all add: test_stdlib_def)

lemma test_bodies_distinct:
  "body_too_many \<noteq> body_invalid_phone" "''{}'' \<noteq> body_invalid_phone" "''{}'' \<noteq> body_too_many"
  "'''' \<noteq> body_invalid_phone" "'''' \<noteq> body_too_many"
  "''Internal Server Error'' \<noteq> body_invalid_phone" "''Internal Server Error'' \<noteq> body_too_many"
  "'''' \<noteq> body_sent" "''{}'' \<noteq> body_sent"
  by (simp_all add: body_invalid_phone_def body_too_many_def body_sent_def)

lemma zero_APIError_sel:
  "Code zero_APIError = ''''" "Message zero_APIError = ''''" "StatusCode zero_APIError = 0"
  "ErrorMsg zero_APIError = ''''" "Details zero_APIError = None"
  by (simp_all add: zero_APIError_def)

lemma test_Unmarshal_APIError_table:
  "test_Unmarshal_APIError body_invalid_phone zero_APIError =
     (None, \<lparr>Code = '''', Message = ''Invalid phone number'', StatusCode = 400, ErrorMsg = '''',
             Details = None\<rparr>)"
  "test_Unmarshal_APIError body_too_many zero_APIError =
     (None, \<lparr>Code = '''', Message = '''', StatusCode = 0, ErrorMsg = ''Too many requests'',
             Details = None\<rparr>)"
  "test_Unmarshal_APIError ''{}'' zero_APIError = (None, zero_APIError)"
  "test_Unmarshal_APIError ''Internal Server Error'' zero_APIError =
     (Some (LibError ''invalid character looking for beginning of value''), zero_APIError)"
  by (simp_all add: test_Unmarshal_APIError_def zero_APIError_def test_bodies_distinct)

lemma test_doRequest_fst:
  "fst (doRequest (test_stdlib test_Marshal_SendMessageRequest u)
          (setupTestClient (test_server st body)) ctx method endpoint b [] tr) =
     Inr \<lparr>resp_StatusCode = st, resp_Body = Inr body\<rparr>"
  by (cases b)
     (simp_all add: doRequest_def test_stdlib_def setupTestClient_def test_server_def
        test_Marshal_SendMessageRequest_def)

lemma test_doRequest:
  "doRequest (test_stdlib test_Marshal_SendMessageRequest u)
     (setupTestClient (test_server st body)) ctx method endpoint b [] tr =
   (Inr \<lparr>resp_StatusCode = st, resp_Body = Inr body\<rparr>,
    snd (doRequest (test_stdlib test_Marshal_SendMessageRequest u)
           (setupTestClient (test_server st body)) ctx method endpoint b [] tr))"
  using test_doRequest_fst [of u st body ctx "method" "endpoint" b tr]
  by (simp add: prod_eq_iff)

text \<open>
  Claim C1. For a response whose status is outside [200,300) and whose body was read,
  \<open>parseResponse\<close> decodes the body as an \<open>APIError\<close>. If the decoding succeeds and
  one of message, code and alternate error text is not empty, it returns the decoded
  value, with a zero status code replaced by the status of the response. Otherwise (the
  decoding failed, or all three texts are empty) it returns a typed error made on the
  spot: its code is looked up from the status by \<open>getErrorCodeFromStatusCode\<close>, its
  message is \<^verbatim>\<open>API error: status <status>, body: <body>\<close>, and its status code is the
  status of the response. The decoder is any function: \<open>err\<close> and \<open>a\<close> are what it
  returns on the body and the zero value.
\<close>

theorem parseResponse_error_classifier:
  assumes "resp_StatusCode resp < 200 \<or> 300 \<le> resp_StatusCode resp"
    and "resp_Body resp = Inr body"
    and "json_Unmarshal_APIError L body zero_APIError = (err, a)"
  shows
    "(err = None \<and> (Message a \<noteq> '''' \<or> Code a \<noteq> '''' \<or> ErrorMsg a \<noteq> '''') \<longrightarrow>
        fst (parseResponse L c resp v) =
          Some (APIErr (if StatusCode a = 0 then a\<lparr>StatusCode := resp_StatusCode resp\<rparr> else a))) \<and>
     (err \<noteq> None \<or> (Message a = '''' \<and> Code a = '''' \<and> ErrorMsg a = '''') \<longrightarrow>
        fst (parseResponse L c resp v) =
          Some (APIErr
            \<lparr>Code = getErrorCodeFromStatusCode (resp_StatusCode resp),
             Message = ''API error: status '' @ Sprintf_d (resp_StatusCode resp) @
                       '', body: '' @ body,
             StatusCode = resp_StatusCode resp, ErrorMsg = '''', Details = None\<rparr>))"
  using assms
  by (auto simp: parseResponse_def Let_def NewAPIError_def split: option.splits)

text \<open>
  Four responses: a body with a message and a status code (returned as decoded); a body
  with the alternate error text only (status filled in from the response); a body that
  is not JSON, and a JSON object with none of the texts (both replaced by the error made
  from the status).
\<close>

theorem parseResponse_error_classifier_witness:
  "fst (parseResponse test_lib (setupTestClient (test_server 400 body_invalid_phone))
          \<lparr>resp_StatusCode = 400, resp_Body = Inr body_invalid_phone\<rparr> None) =
     Some (APIErr \<lparr>Code = '''', Message = ''Invalid phone number'', StatusCode = 400,
                   ErrorMsg = '''', Details = None\<rparr>) \<and>
   fst (parseResponse test_lib (setupTestClient (test_server 429 body_too_many))
          \<lparr>resp_StatusCode = 429, resp_Body = Inr body_too_many\<rparr> None) =
     Some (APIErr \<lparr>Code = '''', Message = '''', StatusCode = 429,
                   ErrorMsg = ''Too many requests'', Details = None\<rparr>) \<and>
   fst (parseResponse test_lib (setupTestClient (test_server 500 ''Internal Server Error''))
          \<lparr>resp_StatusCode = 500, resp_Body = Inr ''Internal Server Error''\<rparr> None) =
     Some (APIErr \<lparr>Code = ''INTERNAL_SERVER_ERROR'',
                   Message = ''API error: status 500, body: Internal Server Error'',
                   StatusCode = 500, ErrorMsg = '''', Details = None\<rparr>) \<and>
   fst (parseResponse test_lib (setupTestClient (test_server 404 ''{}''))
          \<lparr>resp_StatusCode = 404, resp_Body = Inr ''{}''\<rparr> None) =
     Some (APIErr \<lparr>Code = ''NOT_FOUND'', Message = ''API error: status 404, body: {}'',
                   StatusCode = 404, ErrorMsg = '''', Details = None\<rparr>)"
proof -
  have a: "fst (parseResponse test_lib (setupTestClient (test_server 400 body_invalid_phone))
          \<lparr>resp_StatusCode = 400, resp_Body = Inr body_invalid_phone\<rparr> None) =
     Some (APIErr \<lparr>Code = '''', Message = ''Invalid phone number'', StatusCode = 400,
                   ErrorMsg = '''', Details = None\<rparr>)"
    using parseResponse_error_classifier
      [of "\<lparr>resp_StatusCode = 400, resp_Body = Inr body_invalid_phone\<rparr>" body_invalid_phone
          test_lib None
          "\<lparr>Code = '''', Message = ''Invalid phone number'', StatusCode = 400, ErrorMsg = '''',
            Details = None\<rparr>"]
    by (simp add: test_lib_def test_stdlib_sel test_Unmarshal_APIError_table)
  have b: "fst (parseResponse test_lib (setupTestClient (test_server 429 body_too_many))
          \<lparr>resp_StatusCode = 429, resp_Body = Inr body_too_many\<rparr> None) =
     Some (APIErr \<lparr>Code = '''', Message = '''', StatusCode = 429,
                   ErrorMsg = ''Too many requests'', Details = None\<rparr>)"
    using parseResponse_error_classifier
      [of "\<lparr>resp_StatusCode = 429, resp_Body = Inr body_too_many\<rparr>" body_too_many
          test_lib None
          "\<lparr>Code = '''', Message = '''', StatusCode = 0, ErrorMsg = ''Too many requests'',
            Details = None\<rparr>"]
    by (simp add: test_lib_def test_stdlib_sel test_Unmarshal_APIError_table)
  have c: "fst (parseResponse test_lib (setupTestClient (test_server 500 ''Internal Server Error''))
          \<lparr>resp_StatusCode = 500, resp_Body = Inr ''Internal Server Error''\<rparr> None) =
     Some (APIErr \<lparr>Code = ''INTERNAL_SERVER_ERROR'',
                   Message = ''API error: status 500, body: Internal Server Error'',
                   StatusCode = 500, ErrorMsg = '''', Details = None\<rparr>)"
    using parseResponse_error_classifier
      [of "\<lparr>resp_StatusCode = 500, resp_Body = Inr ''Internal Server Error''\<rparr>"
          "''Internal Server Error''" test_lib
          "Some (LibError ''invalid character looking for beginning of value'')" zero_APIError]
    by (simp add: test_lib_def test_stdlib_sel test_Unmarshal_APIError_table
          getErrorCodeFromStatusCode_def Status_defs ErrCode_defs Sprintf_d_examples)
  have d: "fst (parseResponse test_lib (setupTestClient (test_server 404 ''{}''))
          \<lparr>resp_StatusCode = 404, resp_Body = Inr ''{}''\<rparr> None) =
     Some (APIErr \<lparr>Code = ''NOT_FOUND'', Message = ''API error: status 404, body: {}'',
                   StatusCode = 404, ErrorMsg = '''', Details = None\<rparr>)"
    using parseResponse_error_classifier
      [of "\<lparr>resp_StatusCode = 404, resp_Body = Inr ''{}''\<rparr>" "''{}''" test_lib None
          zero_APIError]
    by (simp add: test_lib_def test_stdlib_sel test_Unmarshal_APIError_table zero_APIError_sel
          getErrorCodeFromStatusCode_def Status_defs ErrCode_defs Sprintf_d_examples)
  show ?thesis
    using a b c d by simp
qed

text \<open>
  Claim C5. Let a request of one of the four verbs come back with a response whose body
  was read. If the status is outside [200,300), the verb returns the error that
  \<open>parseResponse\<close> makes of the response, which is a typed API error, and the result
  container is returned as it was passed in. If the status is in [200,300) and no
  container was passed (nil), the verb returns no error, and it does so for every
  behaviour \<open>u\<close>, \<open>ua\<close> of the two decoders: none of them is consulted.
\<close>

theorem verbs_non_2xx_and_nil_container:
  assumes "resp_Body resp = Inr body"
  shows
    "(resp_StatusCode resp < 200 \<or> 300 \<le> resp_StatusCode resp \<longrightarrow>
        IsAPIError (fst (parseResponse L c resp v)) \<and>
        snd (parseResponse L c resp v) = v \<and>
        (doRequest L c ctx ''GET'' endpoint None queryParams tr = (Inr resp, tr') \<longrightarrow>
           Get L c ctx endpoint v queryParams tr = ((fst (parseResponse L c resp v), v), tr')) \<and>
        (doRequest L c ctx ''POST'' endpoint b [] tr = (Inr resp, tr') \<longrightarrow>
           Post L c ctx endpoint b v tr = ((fst (parseResponse L c resp v), v), tr')) \<and>
        (doRequest L c ctx ''PUT'' endpoint b [] tr = (Inr resp, tr') \<longrightarrow>
           Put L c ctx endpoint b v tr = ((fst (parseResponse L c resp v), v), tr')) \<and>
        (doRequest L c ctx ''DELETE'' endpoint None [] tr = (Inr resp, tr') \<longrightarrow>
           Delete L c ctx endpoint v tr = ((fst (parseResponse L c resp v), v), tr'))) \<and>
     (200 \<le> resp_StatusCode resp \<and> resp_StatusCode resp < 300 \<longrightarrow>
        parseResponse (L\<lparr>json_Unmarshal := u, json_Unmarshal_APIError := ua\<rparr>) c resp None =
          (None, None) \<and>
        (doRequest L c ctx ''GET'' endpoint None queryParams tr = (Inr resp, tr') \<longrightarrow>
           Get L c ctx endpoint None queryParams tr = ((None, None), tr')) \<and>
        (doRequest L c ctx ''POST'' endpoint b [] tr = (Inr resp, tr') \<longrightarrow>
           Post L c ctx endpoint b None tr = ((None, None), tr')) \<and>
        (doRequest L c ctx ''PUT'' endpoint b [] tr = (Inr resp, tr') \<longrightarrow>
           Put L c ctx endpoint b None tr = ((None, None), tr')) \<and>
        (doRequest L c ctx ''DELETE'' endpoint None [] tr = (Inr resp, tr') \<longrightarrow>
           Delete L c ctx endpoint None tr = ((None, None), tr')))"
proof (intro conjI impI)
  assume out: "resp_StatusCode resp < 200 \<or> 300 \<le> resp_StatusCode resp"
  note p = parseResponse_non_2xx [OF out assms, of L c v]
  show "IsAPIError (fst (parseResponse L c resp v))"
    by (rule p(1))
  show "snd (parseResponse L c resp v) = v"
    by (rule p(2))
  have eq: "parseResponse L c resp v = (fst (parseResponse L c resp v), v)"
    using p(2) by (simp add: prod_eq_iff)
  show "Get L c ctx endpoint v queryParams tr = ((fst (parseResponse L c resp v), v), tr')"
    if "doRequest L c ctx ''GET'' endpoint None queryParams tr = (Inr resp, tr')"
    using Get_response [OF that, of v] eq by simp
  show "Post L c ctx endpoint b v tr = ((fst (parseResponse L c resp v), v), tr')"
    if "doRequest L c ctx ''POST'' endpoint b [] tr = (Inr resp, tr')"
    using Post_response [OF that, of v] eq by simp
  show "Put L c ctx endpoint b v tr = ((fst (parseResponse L c resp v), v), tr')"
    if "doRequest L c ctx ''PUT'' endpoint b [] tr = (Inr resp, tr')"
    using Put_response [OF that, of v] eq by simp
  show "Delete L c ctx endpoint v tr = ((fst (parseResponse L c resp v), v), tr')"
    if "doRequest L c ctx ''DELETE'' endpoint None [] tr = (Inr resp, tr')"
    using Delete_response [OF that, of v] eq by simp
next
  assume "200 \<le> resp_StatusCode resp \<and> resp_StatusCode resp < 300"
  then have inr: "200 \<le> resp_StatusCode resp" "resp_StatusCode resp < 300"
    by simp_all
  note q = parseResponse_2xx_nil [OF inr assms]
  show "parseResponse (L\<lparr>json_Unmarshal := u, json_Unmarshal_APIError := ua\<rparr>) c resp None =
          (None, None)"
    by (rule q)
  show "Get L c ctx endpoint None queryParams tr = ((None, None), tr')"
    if "doRequest L c ctx ''GET'' endpoint None queryParams tr = (Inr resp, tr')"
    using Get_response [OF that, of None] q [of L c] by simp
  show "Post L c ctx endpoint b None tr = ((None, None), tr')"
    if "doRequest L c ctx ''POST'' endpoint b [] tr = (Inr resp, tr')"
    using Post_response [OF that, of None] q [of L c] by simp
  show "Put L c ctx endpoint b None tr = ((None, None), tr')"
    if "doRequest L c ctx ''PUT'' endpoint b [] tr = (Inr resp, tr')"
    using Put_response [OF that, of None] q [of L c] by simp
  show "Delete L c ctx endpoint None tr = ((None, None), tr')"
    if "doRequest L c ctx ''DELETE'' endpoint None [] tr = (Inr resp, tr')"
    using Delete_response [OF that, of None] q [of L c] by simp
qed

text \<open>
  A server that answers 500 with a body that is not JSON (as in
  \<^verbatim>\<open>TestClient_ParseResponse_NonJSONError\<close>): \<open>Get\<close> returns the typed error and the
  container as passed. A server that answers 204 with an empty body, and no container:
  \<open>Delete\<close> succeeds.
\<close>

theorem verbs_non_2xx_and_nil_container_witness:
  "fst (Get test_lib (setupTestClient (test_server 500 ''Internal Server Error'')) Background
          ''/test'' (Some zero_SendMessageResponse) [] []) =
     (Some (APIErr \<lparr>Code = ''INTERNAL_SERVER_ERROR'',
                    Message = ''API error: status 500, body: Internal Server Error'',
                    StatusCode = 500, ErrorMsg = '''', Details = None\<rparr>),
      Some zero_SendMessageResponse) \<and>
   fst (Delete test_lib (setupTestClient (test_server 204 '''')) Background ''/test'' None []) =
     (None, None)"
proof -
  have p: "fst (parseResponse test_lib (setupTestClient (test_server 500 ''Internal Server Error''))
             \<lparr>resp_StatusCode = 500, resp_Body = Inr ''Internal Server Error''\<rparr>
             (Some zero_SendMessageResponse)) =
           Some (APIErr \<lparr>Code = ''INTERNAL_SERVER_ERROR'',
                    Message = ''API error: status 500, body: Internal Server Error'',
                    StatusCode = 500, ErrorMsg = '''', Details = None\<rparr>)"
    by (simp add: parseResponse_def test_lib_def test_stdlib_sel test_Unmarshal_APIError_table
          NewAPIError_def getErrorCodeFromStatusCode_def Status_defs ErrCode_defs
          Sprintf_d_examples)
  have a: "fst (Get test_lib (setupTestClient (test_server 500 ''Internal Server Error'')) Background
          ''/test'' (Some zero_SendMessageResponse) [] []) =
     (Some (APIErr \<lparr>Code = ''INTERNAL_SERVER_ERROR'',
                    Message = ''API error: status 500, body: Internal Server Error'',
                    StatusCode = 500, ErrorMsg = '''', Details = None\<rparr>),
      Some zero_SendMessageResponse)"
    using verbs_non_2xx_and_nil_container
      [where resp = "\<lparr>resp_StatusCode = 500, resp_Body = Inr ''Internal Server Error''\<rparr>"
         and body = "''Internal Server Error''" and L = test_lib
         and c = "setupTestClient (test_server 500 ''Internal Server Error'')"
         and v = "Some zero_SendMessageResponse" and ctx = Background and endpoint = "''/test''"
         and queryParams = "[]" and tr = "[]"
         and tr' = "snd (doRequest test_lib
                      (setupTestClient (test_server 500 ''Internal Server Error'')) Background
                      ''GET'' ''/test'' None [] [])"]
      p
    by (simp add: prod_eq_iff test_lib_def test_doRequest_fst)
  have b: "fst (Delete test_lib (setupTestClient (test_server 204 '''')) Background ''/test'' None []) =
     (None, None)"
    using verbs_non_2xx_and_nil_container
      [where resp = "\<lparr>resp_StatusCode = 204, resp_Body = Inr ''''\<rparr>"
         and body = "''''" and L = test_lib
         and c = "setupTestClient (test_server 204 '''')"
         and ctx = Background and endpoint = "''/test''"
         and tr = "[]"
         and tr' = "snd (doRequest test_lib (setupTestClient (test_server 204 '''')) Background
                      ''DELETE'' ''/test'' None [] [])"]
    by (simp add: prod_eq_iff test_lib_def test_doRequest_fst)
  show ?thesis
    using a b by simp
qed

lemma test_Unmarshal_SendMessageResponse_table:
  "test_Unmarshal_SendMessageResponse body_sent zero_SendMessageResponse =
     (None, \<lparr>smr_ID = ''msg-123'', smr_Status = ''sent'', smr_Message = '''',
             smr_To = ''+1234567890'', smr_Cost = 0, smr_SentAt = '''', smr_Data = None\<rparr>)"
  "test_Unmarshal_SendMessageResponse '''' zero_SendMessageResponse =
     (Some (LibError ''unexpected end of JSON input''), zero_SendMessageResponse)"
  by (simp_all add: test_Unmarshal_SendMessageResponse_def zero_SendMessageResponse_def
        test_bodies_distinct)

text \<open>
  Claim C6. For a response whose status is in [200,300), whose body was read, and a
  container that is not nil, \<open>parseResponse\<close> decodes the body into the container with
  \<^verbatim>\<open>json.Unmarshal\<close>. It succeeds exactly when the decoder reports no error, and fails
  exactly when the decoder reports one (the body is not valid JSON, or does not fit the
  container); the error is then the decoder's, wrapped as
  \<^verbatim>\<open>failed to unmarshal response: ...\<close>. In both cases the container holds what the decoder
  left in it. The decoder belongs to the standard library and is any function here;
  \<^verbatim>\<open>encoding/json\<close> rejects the empty input (\<^verbatim>\<open>unexpected end of JSON input\<close>), and with
  every decoder that does, an empty body and a non-nil container give a decode error.
\<close>

theorem parseResponse_decode:
  assumes "200 \<le> resp_StatusCode resp" and "resp_StatusCode resp < 300"
    and "resp_Body resp = Inr body"
    and "json_Unmarshal L body dst = (err, dst')"
  shows
    "(err = None \<longrightarrow> parseResponse L c resp (Some dst) = (None, Some dst')) \<and>
     (\<forall>e. err = Some e \<longrightarrow>
        parseResponse L c resp (Some dst) =
          (Some (Errorf_w ''failed to unmarshal response: '' e), Some dst')) \<and>
     (body = '''' \<and> fst (json_Unmarshal L '''' dst) \<noteq> None \<longrightarrow>
        (\<exists>e. fst (parseResponse L c resp (Some dst)) =
           Some (Errorf_w ''failed to unmarshal response: '' e)))"
  using assms by (auto simp: parseResponse_def)

text \<open>
  The body of a successful send decodes into the container; the empty body is a decode
  error and leaves the container as it was.
\<close>

theorem parseResponse_decode_witness:
  "parseResponse test_lib (setupTestClient (test_server 200 body_sent))
     \<lparr>resp_StatusCode = 200, resp_Body = Inr body_sent\<rparr> (Some zero_SendMessageResponse) =
     (None, Some \<lparr>smr_ID = ''msg-123'', smr_Status = ''sent'', smr_Message = '''',
                  smr_To = ''+1234567890'', smr_Cost = 0, smr_SentAt = '''', smr_Data = None\<rparr>) \<and>
   parseResponse test_lib (setupTestClient (test_server 200 ''''))
     \<lparr>resp_StatusCode = 200, resp_Body = Inr ''''\<rparr> (Some zero_SendMessageResponse) =
     (Some (FmtWrapError ''failed to unmarshal response: unexpected end of JSON input''
              (LibError ''unexpected end of JSON input'')),
      Some zero_SendMessageResponse)"
proof -
  have a: "parseResponse test_lib (setupTestClient (test_server 200 body_sent))
     \<lparr>resp_StatusCode = 200, resp_Body = Inr body_sent\<rparr> (Some zero_SendMessageResponse) =
     (None, Some \<lparr>smr_ID = ''msg-123'', smr_Status = ''sent'', smr_Message = '''',
                  smr_To = ''+1234567890'', smr_Cost = 0, smr_SentAt = '''', smr_Data = None\<rparr>)"
    using parseResponse_decode
      [where resp = "\<lparr>resp_StatusCode = 200, resp_Body = Inr body_sent\<rparr>" and body = body_sent
         and L = test_lib and dst = zero_SendMessageResponse and err = None
         and dst' = "\<lparr>smr_ID = ''msg-123'', smr_Status = ''sent'', smr_Message = '''',
                  smr_To = ''+1234567890'', smr_Cost = 0, smr_SentAt = '''', smr_Data = None\<rparr>"]
    by (simp add: test_lib_def test_stdlib_sel test_Unmarshal_SendMessageResponse_table)
  have b: "parseResponse test_lib (setupTestClient (test_server 200 ''''))
     \<lparr>resp_StatusCode = 200, resp_Body = Inr ''''\<rparr> (Some zero_SendMessageResponse) =
     (Some (FmtWrapError ''failed to unmarshal response: unexpected end of JSON input''
              (LibError ''unexpected end of JSON input'')),
      Some zero_SendMessageResponse)"
    using parseResponse_decode
      [where resp = "\<lparr>resp_StatusCode = 200, resp_Body = Inr ''''\<rparr>" and body = "''''"
         and L = test_lib and dst = zero_SendMessageResponse
         and err = "Some (LibError ''unexpected end of JSON input'')"
         and dst' = zero_SendMessageResponse]
    by (simp add: test_lib_def test_stdlib_sel test_Unmarshal_SendMessageResponse_table
          Errorf_w_def)
  show ?thesis
    using a b by simp
qed

section \<open>The message service\<close>

text \<open>
  Claim C9. \<open>SendSingleMessage\<close> with an empty recipient and \<open>SendBulkMessages\<close> with
  an empty list of messages (and the convenience forms \<open>SendMessage\<close> and
  \<open>SendBulkMessage\<close>) return a local validation error, an error text that is not a typed
  API error, and the trace of requests built and sent is the one they were called with:
  no request is constructed or issued. The result is the same for every client and every
  library, so neither is consulted.
\<close>

theorem validation_before_transport:
  "(smq_To r = '''' \<longrightarrow>
      SendSingleMessage L c ctx (Some r) tr =
        ((None, Some (ErrorString ''recipient phone number is required'')), tr)) \<and>
   SendMessage L c ctx '''' message tr =
     ((None, Some (ErrorString ''recipient phone number is required'')), tr) \<and>
   (sbq_Messages b = [] \<longrightarrow>
      SendBulkMessages L' c ctx (Some b) tr =
        ((None, Some (ErrorString ''at least one message is required'')), tr)) \<and>
   SendBulkMessage L' c ctx [] from tr =
     ((None, Some (ErrorString ''at least one message is required'')), tr)"
  by (simp add: SendSingleMessage_def SendMessage_def SendBulkMessages_def SendBulkMessage_def)

text \<open>
  Against a server that would answer 200, the two calls still leave the trace empty.
\<close>

theorem validation_before_transport_witness:
  "SendSingleMessage test_lib (setupTestClient (test_server 200 body_sent)) Background
     (Some \<lparr>smq_To = '''', smq_Message = ''hi'', smq_DocumentLink = '''',
            smq_DocumentCaption = '''', smq_From = '''', smq_Params = None\<rparr>) [] =
     ((None, Some (ErrorString ''recipient phone number is required'')), []) \<and>
   SendBulkMessages test_lib_bulk (setupTestClient (test_server 200 body_bulk_ok)) Background
     (Some \<lparr>sbq_Messages = [], sbq_From = '''', sbq_Params = None\<rparr>) [] =
     ((None, Some (ErrorString ''at least one message is required'')), [])"
  using validation_before_transport
    [where r = "\<lparr>smq_To = '''', smq_Message = ''hi'', smq_DocumentLink = '''',
            smq_DocumentCaption = '''', smq_From = '''', smq_Params = None\<rparr>"
       and L = test_lib and c = "setupTestClient (test_server 200 body_sent)"
       and ctx = Background and tr = "[]"]
    validation_before_transport
    [where b = "\<lparr>sbq_Messages = [], sbq_From = '''', sbq_Params = None\<rparr>"
       and L' = test_lib_bulk and c = "setupTestClient (test_server 200 body_bulk_ok)"
       and ctx = Background and tr = "[]"]
  by simp

text \<open>
  When \<open>Post\<close> returns an error, \<open>SendSingleMessage\<close> returns a
  \<^verbatim>\<open>*fmt.wrapError\<close> around it.
\<close>

lemma SendSingleMessage_wraps:
  assumes "smq_To r \<noteq> ''''" and "smq_Message r \<noteq> ''''"
    and "Post L c ctx ''/send-message/single'' (Some r) (Some zero_SendMessageResponse) tr =
           ((Some err, v), tr')"
  shows "SendSingleMessage L c ctx (Some r) tr =
           ((None, Some (FmtWrapError (''failed to send message: '' @ Error err) err)), tr')"
  using assms by (simp add: SendSingleMessage_def Errorf_w_def)

text \<open>
  So no error that \<open>SendSingleMessage\<close> returns is a typed API error for the type
  assertion of the helpers: it is a validation error or a \<^verbatim>\<open>*fmt.wrapError\<close>.
\<close>

lemma SendSingleMessage_never_APIError:
  "\<not> IsAPIError (snd (fst (SendSingleMessage L c ctx req tr)))"
  by (auto simp: SendSingleMessage_def IsAPIError_def Errorf_w_def
           split: option.splits prod.splits)

text \<open>
  Against a server that answers 400 with the body
  \<^verbatim>\<open>{"message":"Invalid phone number","status_code":400}\<close>, the verb \<open>Post\<close> itself
  returns the typed error.
\<close>

lemma test_Post_invalid_phone:
  "fst (Post test_lib (setupTestClient (test_server 400 body_invalid_phone)) ctx endpoint b v tr) =
     (Some (APIErr \<lparr>Code = '''', Message = ''Invalid phone number'', StatusCode = 400,
                    ErrorMsg = '''', Details = None\<rparr>), v)"
proof -
  have "Post test_lib (setupTestClient (test_server 400 body_invalid_phone)) ctx endpoint b v tr =
      (parseResponse test_lib (setupTestClient (test_server 400 body_invalid_phone))
         \<lparr>resp_StatusCode = 400, resp_Body = Inr body_invalid_phone\<rparr> v,
       snd (doRequest test_lib (setupTestClient (test_server 400 body_invalid_phone)) ctx
              ''POST'' endpoint b [] tr))"
    unfolding test_lib_def by (rule Post_response) (rule test_doRequest)
  then show ?thesis
    by (simp add: parseResponse_def test_lib_def test_stdlib_sel test_Unmarshal_APIError_table)
qed

lemma test_Post_invalid_phone_typed:
  "IsAPIError (fst (fst (Post test_lib (setupTestClient (test_server 400 body_invalid_phone))
      ctx endpoint b v tr))) \<and>
   GetStatusCode (fst (fst (Post test_lib (setupTestClient (test_server 400 body_invalid_phone))
      ctx endpoint b v tr))) = 400 \<and>
   map_option Error (fst (fst (Post test_lib
      (setupTestClient (test_server 400 body_invalid_phone)) ctx endpoint b v tr))) =
     Some ''Invalid phone number''"
  by (simp add: test_Post_invalid_phone IsAPIError_def GetStatusCode_def APIError_Error_def)

text \<open>
  Claim C2. The claim: when a convenience method receives a typed API error from the
  pipeline and wraps it in context (\<^verbatim>\<open>failed to send message: ...\<close>), the error the
  caller gets still satisfies the helpers; for a server answering 400 with
  \<^verbatim>\<open>{"message":"Invalid phone number","status_code":400}\<close>, \<open>IsAPIError\<close> is true,
  \<open>GetStatusCode\<close> is 400 and the text is \<^verbatim>\<open>Invalid phone number\<close>. The code, at this
  input: \<open>SendMessage\<close> returns the \<^verbatim>\<open>*fmt.wrapError\<close> around the typed error, on which
  \<open>IsAPIError\<close> is false, \<open>GetStatusCode\<close> is 0 and the text is
  \<^verbatim>\<open>failed to send message: Invalid phone number\<close>. The typed error is reached by
  \<open>Unwrap\<close> only.
\<close>

theorem SendMessage_400_wrapped:
  "snd (fst (SendMessage test_lib (setupTestClient (test_server 400 body_invalid_phone))
               Background ''+1234567890'' ''hi'' [])) =
     Some (FmtWrapError ''failed to send message: Invalid phone number''
       (APIErr \<lparr>Code = '''', Message = ''Invalid phone number'', StatusCode = 400,
                ErrorMsg = '''', Details = None\<rparr>)) \<and>
   \<not> IsAPIError (snd (fst (SendMessage test_lib
        (setupTestClient (test_server 400 body_invalid_phone))
        Background ''+1234567890'' ''hi'' []))) \<and>
   GetStatusCode (snd (fst (SendMessage test_lib
        (setupTestClient (test_server 400 body_invalid_phone))
        Background ''+1234567890'' ''hi'' []))) = 0 \<and>
   map_option Error (snd (fst (SendMessage test_lib
        (setupTestClient (test_server 400 body_invalid_phone))
        Background ''+1234567890'' ''hi'' []))) =
     Some ''failed to send message: Invalid phone number'' \<and>
   Option.bind (snd (fst (SendMessage test_lib
        (setupTestClient (test_server 400 body_invalid_phone))
        Background ''+1234567890'' ''hi'' []))) Unwrap =
     Some (APIErr \<lparr>Code = '''', Message = ''Invalid phone number'', StatusCode = 400,
                   ErrorMsg = '''', Details = None\<rparr>)"
proof -
  let ?r = "\<lparr>smq_To = ''+1234567890'', smq_Message = ''hi'', smq_DocumentLink = '''',
              smq_DocumentCaption = '''', smq_From = '''', smq_Params = None\<rparr>"
  let ?c = "setupTestClient (test_server 400 body_invalid_phone)"
  let ?e = "APIErr \<lparr>Code = '''', Message = ''Invalid phone number'', StatusCode = 400,
                ErrorMsg = '''', Details = None\<rparr>"
  have P: "Post test_lib ?c Background ''/send-message/single'' (Some ?r)
             (Some zero_SendMessageResponse) [] =
           ((Some ?e, Some zero_SendMessageResponse),
            snd (Post test_lib ?c Background ''/send-message/single'' (Some ?r)
                   (Some zero_SendMessageResponse) []))"
    using test_Post_invalid_phone
      [of Background "''/send-message/single''" "Some ?r" "Some zero_SendMessageResponse" "[]"]
    by (simp add: prod_eq_iff)
  have "SendSingleMessage test_lib ?c Background (Some ?r) [] =
          ((None, Some (FmtWrapError (''failed to send message: '' @ Error ?e) ?e)),
           snd (Post test_lib ?c Background ''/send-message/single'' (Some ?r)
                  (Some zero_SendMessageResponse) []))"
    by (rule SendSingleMessage_wraps [OF _ _ P]) simp_all
  then have "snd (fst (SendMessage test_lib ?c Background ''+1234567890'' ''hi'' [])) =
     Some (FmtWrapError ''failed to send message: Invalid phone number'' ?e)"
    by (simp add: SendMessage_def APIError_Error_def)
  then show ?thesis
    by (simp add: IsAPIError_def GetStatusCode_def)
qed

end
